theory Spec2Isabelle
  imports Complex_Main
begin

section \<open>JavaScript values\<close>

text \<open>
  A JSON value as \<open>JSON.parse\<close> and \<open>express.json()\<close> produce it. An object is the list of
  its own properties in insertion order, each key once. A number is the double that
  parsing gives, by its value: \<open>JNum 0\<close> is either zero, and a literal too small for a
  double, as \<open>1e-324\<close>, is \<open>JNum 0\<close>. A literal too large for a double parses to an
  infinity, which is no JSON number and is not among these values.
\<close>

datatype json =
    JNull
  | JBool bool
  | JNum rat
  | JString string
  | JArray "json list"
  | JObj "(string \<times> json) list"

text \<open>A JavaScript value that may also be \<open>undefined\<close> (\<open>None\<close>).\<close>

type_synonym jsval = "json option"

text \<open>Thrown values: error objects, each with its \<open>message\<close>.\<close>

datatype error =
    Error (message: string)
  | TypeError (message: string)
  | SyntaxError (message: string)

definition cannot_read :: "string \<Rightarrow> string \<Rightarrow> string" where
  "cannot_read base k =
     ''Cannot read properties of '' @ base @ '' (reading '' @ [CHR 0x27] @ k @ [CHR 0x27] @ '')''"

text \<open>
  \<open>v.k\<close> for a value \<open>v\<close> that is neither \<open>null\<close> nor \<open>undefined\<close>, and a property name
  \<open>k\<close> that no prototype provides and that is no array index (the sources read
  \<open>mcpServers\<close> and \<open>message\<close>): the own property of an object, \<open>undefined\<close> otherwise.
\<close>

definition own_prop :: "json \<Rightarrow> string \<Rightarrow> jsval" where
  "own_prop v k = (case v of JObj kvs \<Rightarrow> map_of kvs k | _ \<Rightarrow> None)"

text \<open>\<open>v.k\<close> for any value: reading a property of \<open>null\<close> or \<open>undefined\<close> throws.\<close>

definition read_prop :: "jsval \<Rightarrow> string \<Rightarrow> error + jsval" where
  "read_prop v k =
     (case v of
        None \<Rightarrow> Inl (TypeError (cannot_read ''undefined'' k))
      | Some JNull \<Rightarrow> Inl (TypeError (cannot_read ''null'' k))
      | Some j \<Rightarrow> Inr (own_prop j k))"

text \<open>JavaScript truthiness of a JSON value or \<open>undefined\<close>.\<close>

definition truthy :: "jsval \<Rightarrow> bool" where
  "truthy v =
     (case v of
        None \<Rightarrow> False
      | Some JNull \<Rightarrow> False
      | Some (JBool b) \<Rightarrow> b
      | Some (JNum n) \<Rightarrow> n \<noteq> 0
      | Some (JString s) \<Rightarrow> s \<noteq> []
      | Some _ \<Rightarrow> True)"

text \<open>
  The conversion of a value to a string, \<open>ToString\<close>, which \<open>new Error(v)\<close> applies to its
  argument. A number converts by \<open>Number_toString\<close>, a parameter, and never throws. An
  array converts by \<open>join\<close>: its elements converted, \<open>null\<close> to the empty string, with
  commas between. An object parsed from JSON converts by \<open>Object.prototype.toString\<close> to
  \<open>[object Object]\<close>, unless it has an own property \<open>toString\<close>: that is not callable, nor
  does \<open>valueOf\<close> give a primitive, and the conversion throws a TypeError (the text is
  V8's).
\<close>

fun ToString :: "(rat \<Rightarrow> string) \<Rightarrow> json \<Rightarrow> error + string"
  and join :: "(rat \<Rightarrow> string) \<Rightarrow> json list \<Rightarrow> error + string" where
  "ToString Number_toString (JString t) = Inr t"
| "ToString Number_toString (JNum n) = Inr (Number_toString n)"
| "ToString Number_toString (JBool b) = Inr (if b then ''true'' else ''false'')"
| "ToString Number_toString JNull = Inr ''null''"
| "ToString Number_toString (JObj kvs) =
     (if map_of kvs ''toString'' = None then Inr ''[object Object]''
      else Inl (TypeError ''Cannot convert object to primitive value''))"
| "ToString Number_toString (JArray xs) = join Number_toString xs"
| "join Number_toString [] = Inr []"
| "join Number_toString (x # xs) =
     (case (if x = JNull then Inr [] else ToString Number_toString x) of
        Inl e \<Rightarrow> Inl e
      | Inr t \<Rightarrow>
          (case join Number_toString xs of
             Inl e \<Rightarrow> Inl e
           | Inr ts \<Rightarrow> Inr (if xs = [] then t else t @ '','' @ ts)))"


section \<open>The server: \<open>server/routes/config.ts\<close>\<close>

subsection \<open>The ConfigManager service\<close>

text \<open>
  The class \<open>ConfigManager\<close> is imported by the router; the router is modelled for any
  implementation of it. The state \<open>'s\<close> is everything the operations of the service read
  and write: the fields of the instance and the file system. An awaited operation takes
  the state and returns its result, or the error it threw, with the state it left.
  \<open>validateConfig\<close> is called synchronously and its result is used at once: it is a
  function of its argument.
\<close>

record MCPConfig =
  mcpServers :: jsval

record ValidationResult =
  valid :: bool
  errors :: "json list"

type_synonym ('a, 's) async = "'s \<Rightarrow> (error + 'a) \<times> 's"

record 's ConfigManager =
  loadConfig :: "(json, 's) async"
  loadFullConfig :: "(json, 's) async"
  validateConfig :: "MCPConfig \<Rightarrow> error + ValidationResult"
  saveConfig :: "json \<Rightarrow> (unit, 's) async"
  getActiveConfigInfo :: "(json, 's) async"
  getConfigPath :: "(string, 's) async"
  configExists :: "(bool, 's) async"

subsection \<open>Responses\<close>

record response =
  status :: nat
  body :: json

text \<open>\<open>res.json(v)\<close> answers with status 200; \<open>res.status(n).json(v)\<close> with status \<open>n\<close>.\<close>

definition res_json :: "json \<Rightarrow> response" where
  "res_json v = \<lparr>status = 200, body = v\<rparr>"

definition res_status_json :: "nat \<Rightarrow> json \<Rightarrow> response" where
  "res_status_json n v = \<lparr>status = n, body = v\<rparr>"

text \<open>
  The \<open>catch\<close> branch every handler has: the error thrown in the \<open>try\<close> block becomes a
  response with status 500, \<open>success: false\<close> and the route's text followed by the
  error's message.
\<close>

definition catch_500 :: "string \<Rightarrow> (error + response) \<times> 's \<Rightarrow> response \<times> 's" where
  "catch_500 what r =
     (case r of
        (Inl e, s) \<Rightarrow>
          (res_status_json 500
             (JObj [(''success'', JBool False), (''message'', JString (what @ message e))]), s)
      | (Inr res, s) \<Rightarrow> (res, s))"

subsection \<open>The handlers\<close>

definition get_config :: "'s ConfigManager \<Rightarrow> 's \<Rightarrow> response \<times> 's" where
  "get_config cm s =
     catch_500 ''Failed to load config: ''
       (case loadConfig cm s of
          (Inl e, s1) \<Rightarrow> (Inl e, s1)
        | (Inr config, s1) \<Rightarrow> (Inr (res_json config), s1))"

definition get_config_full :: "'s ConfigManager \<Rightarrow> 's \<Rightarrow> response \<times> 's" where
  "get_config_full cm s =
     catch_500 ''Failed to load full config: ''
       (case loadFullConfig cm s of
          (Inl e, s1) \<Rightarrow> (Inl e, s1)
        | (Inr config, s1) \<Rightarrow> (Inr (res_json config), s1))"

text \<open>
  \<open>POST /config\<close>. Reading \<open>config.mcpServers\<close> comes first and throws on a body that is
  \<open>undefined\<close> or \<open>null\<close>; the validator gets a fresh object holding that one property;
  \<open>saveConfig\<close> gets the body itself.
\<close>

definition post_config :: "'s ConfigManager \<Rightarrow> jsval \<Rightarrow> 's \<Rightarrow> response \<times> 's" where
  "post_config cm payload s =
     catch_500 ''Failed to save config: ''
       (case payload of
          None \<Rightarrow> (Inl (TypeError (cannot_read ''undefined'' ''mcpServers'')), s)
        | Some JNull \<Rightarrow> (Inl (TypeError (cannot_read ''null'' ''mcpServers'')), s)
        | Some config \<Rightarrow>
            (case validateConfig cm \<lparr>mcpServers = own_prop config ''mcpServers''\<rparr> of
               Inl e \<Rightarrow> (Inl e, s)
             | Inr validationResult \<Rightarrow>
                 if \<not> valid validationResult then
                   (Inr (res_status_json 400
                      (JObj [(''success'', JBool False),
                             (''message'', JString ''Invalid configuration''),
                             (''data'', JObj [(''errors'', JArray (errors validationResult))])])), s)
                 else
                   (case saveConfig cm config s of
                      (Inl e, s1) \<Rightarrow> (Inl e, s1)
                    | (Inr _, s1) \<Rightarrow>
                        (Inr (res_json
                           (JObj [(''success'', JBool True),
                                  (''message'', JString ''Configuration saved successfully'')])),
                         s1))))"

definition get_config_info :: "'s ConfigManager \<Rightarrow> 's \<Rightarrow> response \<times> 's" where
  "get_config_info cm s =
     catch_500 ''Failed to get config info: ''
       (case getActiveConfigInfo cm s of
          (Inl e, s1) \<Rightarrow> (Inl e, s1)
        | (Inr info, s1) \<Rightarrow> (Inr (res_json info), s1))"

definition get_config_path :: "'s ConfigManager \<Rightarrow> 's \<Rightarrow> response \<times> 's" where
  "get_config_path cm s =
     catch_500 ''Failed to get config path: ''
       (case getConfigPath cm s of
          (Inl e, s1) \<Rightarrow> (Inl e, s1)
        | (Inr path, s1) \<Rightarrow>
            (case configExists cm s1 of
               (Inl e, s2) \<Rightarrow> (Inl e, s2)
             | (Inr ex, s2) \<Rightarrow>
                 (Inr (res_json (JObj [(''path'', JString path), (''exists'', JBool ex)])), s2)))"


subsection \<open>The router\<close>

text \<open>The method of a request; a method without a constructor of its own by its name.\<close>

datatype verb = GET | HEAD | POST | OPTIONS | OtherVerb string

text \<open>
  A request as the router sees it: the method, the path of the URL below the mount,
  without the query, and the parsed body.
\<close>

record request =
  req_verb :: verb
  req_path :: string
  req_body :: jsval

type_synonym 's handler = "'s ConfigManager \<Rightarrow> jsval \<Rightarrow> 's \<Rightarrow> response \<times> 's"

text \<open>The routes in the order the module registers them; paths are relative to the mount.\<close>

definition router :: "(verb \<times> string \<times> 's handler) list" where
  "router =
     [(GET, ''/config'', \<lambda>cm _. get_config cm),
      (GET, ''/config/full'', \<lambda>cm _. get_config_full cm),
      (POST, ''/config'', post_config),
      (GET, ''/config/info'', \<lambda>cm _. get_config_info cm),
      (GET, ''/config/path'', \<lambda>cm _. get_config_path cm)]"

text \<open>
  \<open>express.Router()\<close> is made with no options, so its routing is neither case sensitive
  nor strict: a route's path, which has no parameters here, is matched against the
  request's path letter by letter without regard to the case of ASCII letters, and the
  request's path may end with one more slash.
\<close>

definition lower :: "char \<Rightarrow> char" where
  "lower c =
     (case map_of (zip ''ABCDEFGHIJKLMNOPQRSTUVWXYZ'' ''abcdefghijklmnopqrstuvwxyz'') c of
        None \<Rightarrow> c
      | Some l \<Rightarrow> l)"

fun layer_match :: "string \<Rightarrow> string \<Rightarrow> bool" where
  "layer_match [] p = (p = [] \<or> p = ''/'')"
| "layer_match (a # pat) [] = False"
| "layer_match (a # pat) (c # p) = (lower a = lower c \<and> layer_match pat p)"

text \<open>
  A route registered for a method handles the requests of that method; a route
  registered with \<open>router.get\<close>, none being registered for HEAD, handles HEAD requests too.
\<close>

definition handles_method :: "verb \<Rightarrow> verb \<Rightarrow> bool" where
  "handles_method registered v \<longleftrightarrow> v = registered \<or> (v = HEAD \<and> registered = GET)"

text \<open>The handler of the first route that matches the path and handles the method.\<close>

definition route :: "verb \<Rightarrow> string \<Rightarrow> 's handler option" where
  "route v p =
     map_option (snd \<circ> snd)
       (find (\<lambda>(registered, pat, _). handles_method registered v \<and> layer_match pat p) router)"

text \<open>
  The router on a request: what the handler of its route gives to \<open>res\<close>, with the state
  it leaves (to a HEAD request the status and the headers are sent, without the body).
  \<open>None\<close> when no route serves the request: the router then answers an OPTIONS request
  for a registered path with the methods allowed, and passes any other request on.
\<close>

definition handle :: "'s ConfigManager \<Rightarrow> request \<Rightarrow> 's \<Rightarrow> (response \<times> 's) option" where
  "handle cm req s = map_option (\<lambda>h. h cm (req_body req) s) (route (req_verb req) (req_path req))"



subsection \<open>Recording the calls a handler makes\<close>

datatype call =
    Call_loadConfig
  | Call_loadFullConfig
  | Call_saveConfig json
  | Call_getActiveConfigInfo
  | Call_getConfigPath
  | Call_configExists

definition logged :: "call \<Rightarrow> ('a, 's) async \<Rightarrow> ('a, call list \<times> 's) async" where
  "logged c f = (\<lambda>(calls, s). case f s of (r, s1) \<Rightarrow> (r, (calls @ [c], s1)))"

text \<open>
  Any ConfigManager, with a list beside its state to which every awaited operation adds
  its name (and \<open>saveConfig\<close> its argument) when it is invoked.
\<close>

definition traced :: "'s ConfigManager \<Rightarrow> (call list \<times> 's) ConfigManager" where
  "traced cm =
     \<lparr>loadConfig = logged Call_loadConfig (loadConfig cm),
      loadFullConfig = logged Call_loadFullConfig (loadFullConfig cm),
      validateConfig = validateConfig cm,
      saveConfig = (\<lambda>config. logged (Call_saveConfig config) (saveConfig cm config)),
      getActiveConfigInfo = logged Call_getActiveConfigInfo (getActiveConfigInfo cm),
      getConfigPath = logged Call_getConfigPath (getConfigPath cm),
      configExists = logged Call_configExists (configExists cm)\<rparr>"

text \<open>
  The error a ConfigManager operation throws while the router serves a request, if one
  does: the operations are those of the request's route, in the order the handler calls
  them, each called only when the handler reaches it.
\<close>

definition cm_throws :: "'s ConfigManager \<Rightarrow> request \<Rightarrow> 's \<Rightarrow> error option" where
  "cm_throws cm req s =
     (if req_verb req = GET \<and> req_path req = ''/config'' then
        (case loadConfig cm s of (Inl e, _) \<Rightarrow> Some e | (Inr _, _) \<Rightarrow> None)
      else if req_verb req = GET \<and> req_path req = ''/config/full'' then
        (case loadFullConfig cm s of (Inl e, _) \<Rightarrow> Some e | (Inr _, _) \<Rightarrow> None)
      else if req_verb req = POST \<and> req_path req = ''/config'' then
        (case req_body req of
           None \<Rightarrow> None
         | Some config \<Rightarrow>
             if config = JNull then None
             else
               (case validateConfig cm \<lparr>mcpServers = own_prop config ''mcpServers''\<rparr> of
                  Inl e \<Rightarrow> Some e
                | Inr validationResult \<Rightarrow>
                    if valid validationResult then
                      (case saveConfig cm config s of (Inl e, _) \<Rightarrow> Some e | (Inr _, _) \<Rightarrow> None)
                    else None))
      else if req_verb req = GET \<and> req_path req = ''/config/info'' then
        (case getActiveConfigInfo cm s of (Inl e, _) \<Rightarrow> Some e | (Inr _, _) \<Rightarrow> None)
      else if req_verb req = GET \<and> req_path req = ''/config/path'' then
        (case getConfigPath cm s of
           (Inl e, _) \<Rightarrow> Some e
         | (Inr _, s1) \<Rightarrow>
             (case configExists cm s1 of (Inl e, _) \<Rightarrow> Some e | (Inr _, _) \<Rightarrow> None))
      else None)"

text \<open>The text each route puts before the error's message in its \<open>catch\<close> branch.\<close>

definition catch_text :: "verb \<Rightarrow> string \<Rightarrow> string" where
  "catch_text v p =
     (if v = GET \<and> p = ''/config'' then ''Failed to load config: ''
      else if v = GET \<and> p = ''/config/full'' then ''Failed to load full config: ''
      else if v = POST \<and> p = ''/config'' then ''Failed to save config: ''
      else if v = GET \<and> p = ''/config/info'' then ''Failed to get config info: ''
      else if v = GET \<and> p = ''/config/path'' then ''Failed to get config path: ''
      else [])"

subsection \<open>The module and its ConfigManager instance\<close>

text \<open>
  Objects have an identity: a store of the ConfigManager instances constructed so far, an
  instance being the list's element at its address, beside the world outside the process.
\<close>

record ('o, 'w) server =
  instances :: "'o list"
  world :: 'w

text \<open>
  A class: the fields \<open>new ConfigManager()\<close> gives a new instance, and the operations,
  which act on the fields of the instance they are called on and on the world.
\<close>

record ('o, 'w) ConfigManager_class =
  constructor :: 'o
  methods :: "('o \<times> 'w) ConfigManager"

definition new_ConfigManager ::
  "('o, 'w) ConfigManager_class \<Rightarrow> ('o, 'w) server \<Rightarrow> nat \<times> ('o, 'w) server" where
  "new_ConfigManager cls srv =
     (length (instances srv), srv\<lparr>instances := instances srv @ [constructor cls]\<rparr>)"

definition on_instance :: "nat \<Rightarrow> ('a, 'o \<times> 'w) async \<Rightarrow> ('a, ('o, 'w) server) async" where
  "on_instance a f srv =
     (case f (instances srv ! a, world srv) of
        (r, (this, w)) \<Rightarrow> (r, \<lparr>instances = (instances srv)[a := this], world = w\<rparr>))"

text \<open>The operations of the instance at address \<open>a\<close>.\<close>

definition instance_at ::
  "('o, 'w) ConfigManager_class \<Rightarrow> nat \<Rightarrow> ('o, 'w) server ConfigManager" where
  "instance_at cls a =
     \<lparr>loadConfig = on_instance a (loadConfig (methods cls)),
      loadFullConfig = on_instance a (loadFullConfig (methods cls)),
      validateConfig = validateConfig (methods cls),
      saveConfig = (\<lambda>config. on_instance a (saveConfig (methods cls) config)),
      getActiveConfigInfo = on_instance a (getActiveConfigInfo (methods cls)),
      getConfigPath = on_instance a (getConfigPath (methods cls)),
      configExists = on_instance a (configExists (methods cls))\<rparr>"

text \<open>
  Loading the module runs \<open>const configManager = new ConfigManager()\<close> once; the handlers
  close over that binding.
\<close>

definition load_module ::
  "('o, 'w) ConfigManager_class \<Rightarrow> ('o, 'w) server \<Rightarrow> nat \<times> ('o, 'w) server" where
  "load_module cls srv = new_ConfigManager cls srv"

text \<open>
  The requests of a run, one after the other, each by the router with the module's
  \<open>configManager\<close>; the answers in order (\<open>None\<close> where no route serves the request).
\<close>

fun serve ::
  "('o, 'w) ConfigManager_class \<Rightarrow> nat \<Rightarrow> request list \<Rightarrow> ('o, 'w) server
     \<Rightarrow> response option list \<times> ('o, 'w) server" where
  "serve cls configManager [] srv = ([], srv)"
| "serve cls configManager (req # reqs) srv =
     (case handle (instance_at cls configManager) req srv of
        None \<Rightarrow>
          (case serve cls configManager reqs srv of (rs, srv2) \<Rightarrow> (None # rs, srv2))
      | Some (res, srv1) \<Rightarrow>
          (case serve cls configManager reqs srv1 of (rs, srv2) \<Rightarrow> (Some res # rs, srv2)))"

definition run ::
  "('o, 'w) ConfigManager_class \<Rightarrow> request list \<Rightarrow> ('o, 'w) server
     \<Rightarrow> response option list \<times> ('o, 'w) server" where
  "run cls reqs srv =
     (case load_module cls srv of (configManager, srv1) \<Rightarrow> serve cls configManager reqs srv1)"


section \<open>The persistence operations of ConfigManager\<close>

text \<open>
  Modelled from the spec: the file system under \<open>ConfigManager\<close>, which is not among the
  sources. A file holds the text of a JSON value (\<open>Json\<close>; reading it back with
  \<open>JSON.parse\<close> gives that value) or some other text. The file system is the files by
  path, the paths at which the operating system refuses a write, and the timestamp the
  clock gives now.
\<close>

datatype file_content = Json json | Text string

record fsys =
  files :: "string \<rightharpoonup> file_content"
  denied :: "string \<Rightarrow> bool"
  timestamp :: string

text \<open>
  Modelled from the spec: the operating system's calls under \<open>ConfigManager\<close>, which is not
  among the sources. A call succeeds or fails as a whole; a failed write leaves the file
  system as it was.
\<close>

definition os_readFile :: "string \<Rightarrow> (file_content, fsys) async" where
  "os_readFile p w =
     (case files w p of
        None \<Rightarrow> (Inl (Error (''ENOENT: no such file or directory, open '' @ p)), w)
      | Some c \<Rightarrow> (Inr c, w))"

definition os_writeFile :: "string \<Rightarrow> file_content \<Rightarrow> (unit, fsys) async" where
  "os_writeFile p c w =
     (if denied w p then (Inl (Error (''EACCES: permission denied, open '' @ p)), w)
      else (Inr (), w\<lparr>files := (files w)(p \<mapsto> c)\<rparr>))"

text \<open>
  Modelled from the spec: the name of a backup, \<open><file>.backup.<timestamp>\<close>.
\<close>

definition backup_name :: "string \<Rightarrow> string \<Rightarrow> string" where
  "backup_name path ts = path @ ''.backup.'' @ ts"

text \<open>
  Modelled from the spec: the backup step of \<open>ConfigManager.saveConfig\<close>, a copy of the
  prior file under the backup's name; with no prior file there is nothing to copy.
\<close>

definition createBackup :: "string \<Rightarrow> (unit, fsys) async" where
  "createBackup path w =
     (case files w path of
        None \<Rightarrow> (Inr (), w)
      | Some prior \<Rightarrow> os_writeFile (backup_name path (timestamp w)) prior w)"

text \<open>
  Modelled from the spec: \<open>ConfigManager.saveConfig\<close>, a file copy-then-write operation:
  the backup first, then the configuration written back wholesale as JSON.
\<close>

definition ConfigManager_saveConfig :: "string \<Rightarrow> json \<Rightarrow> (unit, fsys) async" where
  "ConfigManager_saveConfig path config w =
     (case createBackup path w of
        (Inl e, w1) \<Rightarrow> (Inl e, w1)
      | (Inr _, w1) \<Rightarrow> os_writeFile path (Json config) w1)"

text \<open>
  Modelled from the spec: \<open>ConfigManager.loadConfig\<close>, which reads the file as JSON; a file
  that is missing or is not JSON is a failure.
\<close>

definition ConfigManager_loadConfig :: "string \<Rightarrow> (json, fsys) async" where
  "ConfigManager_loadConfig path w =
     (case os_readFile path w of
        (Inl e, w1) \<Rightarrow> (Inl e, w1)
      | (Inr (Text t), w1) \<Rightarrow> (Inl (SyntaxError (''Unexpected token in JSON: '' @ t)), w1)
      | (Inr (Json config), w1) \<Rightarrow> (Inr config, w1))"

text \<open>
  Modelled from the spec: any ConfigManager whose \<open>loadConfig\<close> and \<open>saveConfig\<close> are the
  two operations above, on the configuration file at \<open>path\<close>; the validator and the other
  operations stay those of \<open>base\<close>.
\<close>

definition persistent :: "string \<Rightarrow> fsys ConfigManager \<Rightarrow> fsys ConfigManager" where
  "persistent path base =
     base\<lparr>loadConfig := ConfigManager_loadConfig path,
          saveConfig := ConfigManager_saveConfig path\<rparr>"


section \<open>The client: \<open>client/src/services/api.ts\<close>\<close>

definition API_BASE :: string where
  "API_BASE = ''/api''"

text \<open>
  A \<open>Response\<close> of \<open>fetch\<close>: its status and what \<open>response.json()\<close> settles to, the parsed
  body or the error of a body that is not JSON. \<open>response.ok\<close> is the status being 2xx.
\<close>

record fetch_response =
  res_status :: nat
  res_parsed :: "error + json"

definition ok :: "fetch_response \<Rightarrow> bool" where
  "ok response \<longleftrightarrow> 200 \<le> res_status response \<and> res_status response \<le> 299"

text \<open>\<open>a || b\<close> on values.\<close>

definition js_or :: "jsval \<Rightarrow> jsval \<Rightarrow> jsval" where
  "js_or a b = (if truthy a then a else b)"

text \<open>
  \<open>new Error(v)\<close>: the message is the string \<open>v\<close> converts to (none for \<open>undefined\<close>);
  when the conversion throws, so does the constructor.
\<close>

definition new_Error :: "(rat \<Rightarrow> string) \<Rightarrow> jsval \<Rightarrow> error + error" where
  "new_Error Number_toString v =
     (case v of
        None \<Rightarrow> Inr (Error [])
      | Some j \<Rightarrow>
          (case ToString Number_toString j of
             Inl e \<Rightarrow> Inl e
           | Inr t \<Rightarrow> Inr (Error t)))"

definition handleResponse :: "(rat \<Rightarrow> string) \<Rightarrow> fetch_response \<Rightarrow> error + json" where
  "handleResponse Number_toString response =
     (if \<not> ok response then
        (let error = (case res_parsed response of
                        Inl _ \<Rightarrow> JObj [(''message'', JString ''Request failed'')]
                      | Inr v \<Rightarrow> v)
         in case read_prop (Some error) ''message'' of
              Inl e \<Rightarrow> Inl e
            | Inr m \<Rightarrow>
                (case new_Error Number_toString (js_or m (Some (JString ''Request failed''))) of
                   Inl e \<Rightarrow> Inl e
                 | Inr thrown \<Rightarrow> Inl thrown))
      else res_parsed response)"

record fetch_request =
  url :: string
  verb :: verb
  headers :: "(string \<times> string) list"
  fetch_body :: jsval

text \<open>The methods of \<open>api\<close>, with their arguments.\<close>

datatype api_method =
    Api_getConfig
  | Api_getFullConfig
  | Api_saveConfig json
  | Api_getConfigPath
  | Api_getConfigInfo
  | Api_getPresets
  | Api_getPresetById string
  | Api_searchPresets string

definition fetch_get :: "string \<Rightarrow> fetch_request" where
  "fetch_get u = \<lparr>url = u, verb = GET, headers = [], fetch_body = None\<rparr>"

text \<open>
  The request each method hands to \<open>fetch\<close>; the body of \<open>saveConfig\<close> stands for the
  text \<open>JSON.stringify(config)\<close>.
\<close>

fun api_request :: "(string \<Rightarrow> string) \<Rightarrow> api_method \<Rightarrow> fetch_request" where
  "api_request encodeURIComponent Api_getConfig = fetch_get (API_BASE @ ''/config'')"
| "api_request encodeURIComponent Api_getFullConfig = fetch_get (API_BASE @ ''/config/full'')"
| "api_request encodeURIComponent (Api_saveConfig config) =
     \<lparr>url = API_BASE @ ''/config'', verb = POST,
      headers = [(''Content-Type'', ''application/json'')], fetch_body = Some config\<rparr>"
| "api_request encodeURIComponent Api_getConfigPath = fetch_get (API_BASE @ ''/config/path'')"
| "api_request encodeURIComponent Api_getConfigInfo = fetch_get (API_BASE @ ''/config/info'')"
| "api_request encodeURIComponent Api_getPresets = fetch_get (API_BASE @ ''/presets'')"
| "api_request encodeURIComponent (Api_getPresetById ident) =
     fetch_get (API_BASE @ ''/presets/'' @ ident)"
| "api_request encodeURIComponent (Api_searchPresets query) =
     fetch_get (API_BASE @ ''/presets/search/'' @ encodeURIComponent query)"

text \<open>
  A method of \<open>api\<close>: \<open>fetch\<close>, which gives a response or rejects, then \<open>handleResponse\<close>.
\<close>

definition api ::
  "(fetch_request \<Rightarrow> error + fetch_response) \<Rightarrow> (string \<Rightarrow> string) \<Rightarrow> (rat \<Rightarrow> string)
     \<Rightarrow> api_method \<Rightarrow> error + json" where
  "api fetch encodeURIComponent Number_toString m =
     (case fetch (api_request encodeURIComponent m) of
        Inl e \<Rightarrow> Inl e
      | Inr response \<Rightarrow> handleResponse Number_toString response)"



section \<open>Instances to run the theorems on\<close>

text \<open>
  A ConfigManager for the file at \<open>path\<close>: the two persistence operations, a validator
  that accepts the bodies whose \<open>mcpServers\<close> is an object, and the path and the
  existence of the file.
\<close>

definition sample_validateConfig :: "MCPConfig \<Rightarrow> error + ValidationResult" where
  "sample_validateConfig c =
     (case mcpServers c of
        Some (JObj _) \<Rightarrow> Inr \<lparr>valid = True, errors = []\<rparr>
      | _ \<Rightarrow> Inr \<lparr>valid = False, errors = [JString ''mcpServers must be an object'']\<rparr>)"

definition sample_cm :: "string \<Rightarrow> fsys ConfigManager" where
  "sample_cm path =
     \<lparr>loadConfig = ConfigManager_loadConfig path,
      loadFullConfig = ConfigManager_loadConfig path,
      validateConfig = sample_validateConfig,
      saveConfig = ConfigManager_saveConfig path,
      getActiveConfigInfo = (\<lambda>w. (Inr (JObj [(''path'', JString path)]), w)),
      getConfigPath = (\<lambda>w. (Inr path, w)),
      configExists = (\<lambda>w. (Inr (files w path \<noteq> None), w))\<rparr>"

text \<open>A file system with one configuration file, and an empty one.\<close>

definition sample_fs :: fsys where
  "sample_fs =
     \<lparr>files = [''cfg.json'' \<mapsto> Json (JObj [(''mcpServers'', JObj [])])],
      denied = (\<lambda>_. False),
      timestamp = ''1700000000000''\<rparr>"

definition empty_fs :: fsys where
  "empty_fs = \<lparr>files = Map.empty, denied = (\<lambda>_. False), timestamp = ''1700000000000''\<rparr>"

text \<open>
  A class with one field, the number of calls of \<open>loadConfig\<close> so far, which \<open>loadConfig\<close>
  returns; nothing outside the instance is read or written.
\<close>

definition counting :: "(nat, unit) ConfigManager_class" where
  "counting =
     \<lparr>constructor = 0,
      methods =
        \<lparr>loadConfig = (\<lambda>(n, w). (Inr (JNum (of_nat n)), (Suc n, w))),
         loadFullConfig = (\<lambda>s. (Inr JNull, s)),
         validateConfig = (\<lambda>_. Inr \<lparr>valid = True, errors = []\<rparr>),
         saveConfig = (\<lambda>_ s. (Inr (), s)),
         getActiveConfigInfo = (\<lambda>s. (Inr JNull, s)),
         getConfigPath = (\<lambda>s. (Inr [], s)),
         configExists = (\<lambda>s. (Inr False, s))\<rparr>\<rparr>"

text \<open>The property \<open>k\<close> of the JSON document in the file at \<open>p\<close>.\<close>

definition file_prop :: "fsys \<Rightarrow> string \<Rightarrow> string \<Rightarrow> jsval" where
  "file_prop w p k = (case files w p of Some (Json j) \<Rightarrow> own_prop j k | _ \<Rightarrow> None)"


section \<open>Auxiliary lemmas\<close>

lemmas sample_defs = sample_cm_def sample_validateConfig_def sample_fs_def own_prop_def
  read_prop_def

lemma post_config_Some:
  "config \<noteq> JNull \<Longrightarrow>
   post_config cm (Some config) s =
     catch_500 ''Failed to save config: ''
       (case validateConfig cm \<lparr>mcpServers = own_prop config ''mcpServers''\<rparr> of
          Inl e \<Rightarrow> (Inl e, s)
        | Inr validationResult \<Rightarrow>
            if \<not> valid validationResult then
              (Inr (res_status_json 400
                 (JObj [(''success'', JBool False),
                        (''message'', JString ''Invalid configuration''),
                        (''data'', JObj [(''errors'', JArray (errors validationResult))])])), s)
            else
              (case saveConfig cm config s of
                 (Inl e, s1) \<Rightarrow> (Inl e, s1)
               | (Inr _, s1) \<Rightarrow>
                   (Inr (res_json
                      (JObj [(''success'', JBool True),
                             (''message'', JString ''Configuration saved successfully'')])),
                    s1)))"
  by (cases config) (auto simp: post_config_def)

lemma traced_simps:
  "validateConfig (traced cm) = validateConfig cm"
  "saveConfig (traced cm) config (calls, s) =
     (case saveConfig cm config s of (r, s1) \<Rightarrow> (r, (calls @ [Call_saveConfig config], s1)))"
  by (simp_all add: traced_def logged_def)

lemma route_simps:
  "route GET ''/config'' = Some (\<lambda>cm _. get_config cm)"
  "route GET ''/config/full'' = Some (\<lambda>cm _. get_config_full cm)"
  "route POST ''/config'' = Some post_config"
  "route GET ''/config/info'' = Some (\<lambda>cm _. get_config_info cm)"
  "route GET ''/config/path'' = Some (\<lambda>cm _. get_config_path cm)"
  by (simp_all add: route_def router_def handles_method_def lower_def)





lemma persistent_simps:
  "loadConfig (persistent path base) = ConfigManager_loadConfig path"
  "saveConfig (persistent path base) = ConfigManager_saveConfig path"
  "validateConfig (persistent path base) = validateConfig base"
  by (simp_all add: persistent_def)

lemma backup_name_neq: "backup_name path ts \<noteq> path"
  by (simp add: backup_name_def)

text \<open>What an answer 200 to \<open>POST /config\<close> says of the persistent ConfigManager.\<close>

lemma post_200_saved:
  assumes "post_config (persistent path base) (Some config) w = (res, w1)"
    and "status res = 200"
  shows "ConfigManager_saveConfig path config w = (Inr (), w1)"
proof -
  have nn: "config \<noteq> JNull"
    using assms by (auto simp: post_config_def catch_500_def res_status_json_def)
  show ?thesis
    using assms
    by (auto simp: post_config_Some[OF nn] persistent_simps catch_500_def res_status_json_def
          res_json_def split: sum.splits if_splits prod.splits)
qed

lemma saveConfig_ok:
  assumes "ConfigManager_saveConfig path config w = (Inr (), w1)"
  shows "w1 = (case files w path of
                 None \<Rightarrow> w\<lparr>files := (files w)(path \<mapsto> Json config)\<rparr>
               | Some prior \<Rightarrow>
                   w\<lparr>files := (files w)(backup_name path (timestamp w) \<mapsto> prior,
                                         path \<mapsto> Json config)\<rparr>)"
  using assms
  by (auto simp: ConfigManager_saveConfig_def createBackup_def os_writeFile_def
      split: option.splits if_splits prod.splits sum.splits)

lemma saveConfig_keeps:
  assumes "ConfigManager_saveConfig path config w = (r, w1)"
  shows "dom (files w) \<subseteq> dom (files w1)
         \<and> (\<forall>q. q \<noteq> path \<longrightarrow> q \<noteq> backup_name path (timestamp w) \<longrightarrow> files w1 q = files w q)"
  using assms
  by (auto simp: ConfigManager_saveConfig_def createBackup_def os_writeFile_def
      split: option.splits if_splits prod.splits sum.splits)

lemma post_config_keeps_files:
  assumes "post_config (persistent path base) payload w = (res, w1)"
  shows "dom (files w) \<subseteq> dom (files w1)
         \<and> (\<forall>q. q \<noteq> path \<longrightarrow> q \<noteq> backup_name path (timestamp w) \<longrightarrow> files w1 q = files w q)"
proof (cases "\<exists>config. payload = Some config \<and> config \<noteq> JNull")
  case True
  then obtain config where c: "payload = Some config" "config \<noteq> JNull" by blast
  obtain r wa where sv: "ConfigManager_saveConfig path config w = (r, wa)"
    by (cases "ConfigManager_saveConfig path config w")
  have "w1 = w \<or> w1 = wa"
    using assms c sv
    by (auto simp: post_config_Some persistent_simps catch_500_def
        split: sum.splits if_splits)
  then show ?thesis using saveConfig_keeps[OF sv] by auto
next
  case False
  then have "w1 = w"
    using assms
    by (cases payload; cases "the payload") (auto simp: post_config_def catch_500_def)
  then show ?thesis by simp
qed

lemma get_config_keeps_files:
  "snd (get_config (persistent path base) w) = w"
  by (simp add: get_config_def persistent_simps ConfigManager_loadConfig_def os_readFile_def
      catch_500_def split: option.splits file_content.splits)

lemma on_instance_length:
  "on_instance a f srv = (r, srv1) \<Longrightarrow> length (instances srv1) = length (instances srv)"
  by (auto simp: on_instance_def split: prod.splits)

lemma catch_500_snd: "snd (catch_500 t r) = snd r"
  by (simp add: catch_500_def split: prod.splits sum.splits)

lemma instance_at_simps:
  "loadConfig (instance_at cls a) = on_instance a (loadConfig (methods cls))"
  "loadFullConfig (instance_at cls a) = on_instance a (loadFullConfig (methods cls))"
  "validateConfig (instance_at cls a) = validateConfig (methods cls)"
  "saveConfig (instance_at cls a) config = on_instance a (saveConfig (methods cls) config)"
  "getActiveConfigInfo (instance_at cls a) = on_instance a (getActiveConfigInfo (methods cls))"
  "getConfigPath (instance_at cls a) = on_instance a (getConfigPath (methods cls))"
  "configExists (instance_at cls a) = on_instance a (configExists (methods cls))"
  by (simp_all add: instance_at_def)

lemma get_config_length:
  "length (instances (snd (get_config (instance_at cls a) srv))) = length (instances srv)"
  by (auto simp: get_config_def catch_500_snd instance_at_simps
      split: prod.splits sum.splits dest: on_instance_length)

lemma get_config_full_length:
  "length (instances (snd (get_config_full (instance_at cls a) srv))) = length (instances srv)"
  by (auto simp: get_config_full_def catch_500_snd instance_at_simps
      split: prod.splits sum.splits dest: on_instance_length)

lemma get_config_info_length:
  "length (instances (snd (get_config_info (instance_at cls a) srv))) = length (instances srv)"
  by (auto simp: get_config_info_def catch_500_snd instance_at_simps
      split: prod.splits sum.splits dest: on_instance_length)

lemma get_config_path_length:
  "length (instances (snd (get_config_path (instance_at cls a) srv))) = length (instances srv)"
  by (auto simp: get_config_path_def catch_500_snd instance_at_simps
      split: prod.splits sum.splits dest!: on_instance_length)

lemma post_config_length:
  "length (instances (snd (post_config (instance_at cls a) b srv))) = length (instances srv)"
  by (auto simp: post_config_def catch_500_snd instance_at_simps
      split: option.splits json.splits prod.splits sum.splits dest: on_instance_length)

lemma handle_length:
  "handle (instance_at cls a) req srv = Some (res, srv1) \<Longrightarrow>
   length (instances srv1) = length (instances srv)"
proof -
  assume h: "handle (instance_at cls a) req srv = Some (res, srv1)"
  then obtain hd where r: "route (req_verb req) (req_path req) = Some hd"
    and e: "hd (instance_at cls a) (req_body req) srv = (res, srv1)"
    by (auto simp: handle_def)
  from r have "hd \<in> {(\<lambda>cm _. get_config cm), (\<lambda>cm _. get_config_full cm), post_config,
      (\<lambda>cm _. get_config_info cm), (\<lambda>cm _. get_config_path cm)}"
    by (auto simp: route_def router_def split: if_splits)
  then show ?thesis
    using e get_config_length[of cls a srv] get_config_full_length[of cls a srv]
      get_config_info_length[of cls a srv] get_config_path_length[of cls a srv]
      post_config_length[of cls a "req_body req" srv]
    by auto
qed

lemma serve_length:
  "length (instances (snd (serve cls a reqs srv))) = length (instances srv)"
proof (induction reqs arbitrary: srv)
  case Nil
  then show ?case by simp
next
  case (Cons req reqs)
  show ?case
  proof (cases "handle (instance_at cls a) req srv")
    case None
    then show ?thesis using Cons.IH[of srv] by (auto split: prod.splits)
  next
    case (Some p)
    obtain res srv1 where p: "p = (res, srv1)" by (cases p)
    have "length (instances srv1) = length (instances srv)"
      using handle_length Some p by blast
    then show ?thesis using Some p Cons.IH[of srv1] by (auto split: prod.splits)
  qed
qed

lemma serve_append:
  "serve cls a (reqs1 @ reqs2) srv =
     (case serve cls a reqs1 srv of
        (rs1, srv1) \<Rightarrow> (case serve cls a reqs2 srv1 of (rs2, srv2) \<Rightarrow> (rs1 @ rs2, srv2)))"
  by (induction reqs1 arbitrary: srv) (auto split: option.splits prod.splits)


section \<open>Rejection of invalid configurations\<close>

text \<open>
  C1. A \<open>POST /config\<close> whose body fails validation is answered with status 400 and the
  validator's list of errors; no operation of the ConfigManager is invoked, \<open>saveConfig\<close>
  in particular, and the state, the file on disk included, is as it was.
\<close>

theorem post_config_invalid_rejected:
  assumes "read_prop payload ''mcpServers'' = Inr servers"
    and "validateConfig cm \<lparr>mcpServers = servers\<rparr> = Inr vr"
    and "\<not> valid vr"
  shows "post_config (traced cm) payload (calls, s) =
           (\<lparr>status = 400,
             body = JObj [(''success'', JBool False),
                          (''message'', JString ''Invalid configuration''),
                          (''data'', JObj [(''errors'', JArray (errors vr))])]\<rparr>,
            (calls, s))"
proof -
  from assms(1) obtain config where c: "payload = Some config" "config \<noteq> JNull"
    "servers = own_prop config ''mcpServers''"
    by (auto simp: read_prop_def split: option.splits json.splits)
  show ?thesis
    using assms(2,3) c
    by (simp add: post_config_Some traced_simps catch_500_def res_status_json_def)
qed

theorem post_config_invalid_rejected_witness:
  "read_prop (Some (JObj [(''mcpServers'', JString ''none'')])) ''mcpServers''
     = Inr (Some (JString ''none''))
   \<and> validateConfig (sample_cm ''cfg.json'') \<lparr>mcpServers = Some (JString ''none'')\<rparr>
     = Inr \<lparr>valid = False, errors = [JString ''mcpServers must be an object'']\<rparr>
   \<and> post_config (traced (sample_cm ''cfg.json''))
       (Some (JObj [(''mcpServers'', JString ''none'')])) ([], sample_fs)
     = (\<lparr>status = 400,
         body = JObj [(''success'', JBool False),
                      (''message'', JString ''Invalid configuration''),
                      (''data'', JObj [(''errors'',
                         JArray [JString ''mcpServers must be an object''])])]\<rparr>,
        ([], sample_fs))"
proof -
  have r: "read_prop (Some (JObj [(''mcpServers'', JString ''none'')])) ''mcpServers''
     = Inr (Some (JString ''none''))"
    by (simp add: read_prop_def own_prop_def)
  have v: "validateConfig (sample_cm ''cfg.json'') \<lparr>mcpServers = Some (JString ''none'')\<rparr>
     = Inr \<lparr>valid = False, errors = [JString ''mcpServers must be an object'']\<rparr>"
    by (simp add: sample_cm_def sample_validateConfig_def)
  have n: "\<not> valid \<lparr>valid = False, errors = [JString ''mcpServers must be an object'']\<rparr>"
    by simp
  show ?thesis
    using r v post_config_invalid_rejected[OF r v n, of "[]" sample_fs] by simp
qed


section \<open>Saving and loading\<close>

text \<open>
  C2. Round trip: when a configuration passes validation and the operating system accepts
  the two writes, \<open>POST /config\<close> with it is answered 200, and a \<open>GET /config\<close> on the
  files the save left returns the configuration that was saved.
\<close>

theorem save_then_load_round_trip:
  assumes "config \<noteq> JNull"
    and "validateConfig base \<lparr>mcpServers = own_prop config ''mcpServers''\<rparr> = Inr vr"
    and "valid vr"
    and "\<not> denied w path"
    and "\<not> denied w (backup_name path (timestamp w))"
    and "post_config (persistent path base) (Some config) w = (res, w1)"
    and "files w2 = files w1"
  shows "status res = 200 \<and>
         get_config (persistent path base) w2 = (\<lparr>status = 200, body = config\<rparr>, w2)"
proof -
  have sv: "\<exists>wa. ConfigManager_saveConfig path config w = (Inr (), wa) \<and> files wa path = Some (Json config)"
    using assms(4,5)
    by (auto simp: ConfigManager_saveConfig_def createBackup_def os_writeFile_def
        split: option.splits)
  then obtain wa where wa: "ConfigManager_saveConfig path config w = (Inr (), wa)"
     "files wa path = Some (Json config)" by blast
  have post: "post_config (persistent path base) (Some config) w =
       (\<lparr>status = 200, body = JObj [(''success'', JBool True),
                             (''message'', JString ''Configuration saved successfully'')]\<rparr>, wa)"
    using assms(2,3) wa(1)
    by (simp add: post_config_Some[OF assms(1)] persistent_simps catch_500_def res_json_def)
  with assms(6) have "res = \<lparr>status = 200, body = JObj [(''success'', JBool True),
                             (''message'', JString ''Configuration saved successfully'')]\<rparr>" "w1 = wa"
    by simp_all
  then show ?thesis
    using wa(2) assms(7)
    by (simp add: get_config_def persistent_simps ConfigManager_loadConfig_def os_readFile_def
        catch_500_def res_json_def)
qed

theorem save_then_load_round_trip_witness:
  "validateConfig (sample_cm ''cfg.json'')
      \<lparr>mcpServers = own_prop (JObj [(''mcpServers'', JObj [(''fs'', JObj [(''command'', JString ''npx'')])])])
         ''mcpServers''\<rparr>
     = Inr \<lparr>valid = True, errors = []\<rparr>
   \<and> \<not> denied sample_fs ''cfg.json''
   \<and> get_config (persistent ''cfg.json'' (sample_cm ''cfg.json''))
       (snd (post_config (persistent ''cfg.json'' (sample_cm ''cfg.json''))
          (Some (JObj [(''mcpServers'', JObj [(''fs'', JObj [(''command'', JString ''npx'')])])]))
          sample_fs))
     = (\<lparr>status = 200,
         body = JObj [(''mcpServers'', JObj [(''fs'', JObj [(''command'', JString ''npx'')])])]\<rparr>,
        snd (post_config (persistent ''cfg.json'' (sample_cm ''cfg.json''))
          (Some (JObj [(''mcpServers'', JObj [(''fs'', JObj [(''command'', JString ''npx'')])])]))
          sample_fs))"
proof -
  let ?c = "JObj [(''mcpServers'', JObj [(''fs'', JObj [(''command'', JString ''npx'')])])]"
  let ?cm = "persistent ''cfg.json'' (sample_cm ''cfg.json'')"
  have nn: "?c \<noteq> JNull" by simp
  have v: "validateConfig (sample_cm ''cfg.json'') \<lparr>mcpServers = own_prop ?c ''mcpServers''\<rparr>
     = Inr \<lparr>valid = True, errors = []\<rparr>"
    by (simp add: sample_cm_def sample_validateConfig_def own_prop_def)
  have t: "valid \<lparr>valid = True, errors = []\<rparr>" by simp
  have d1: "\<not> denied sample_fs ''cfg.json''" by (simp add: sample_fs_def)
  have d2: "\<not> denied sample_fs (backup_name ''cfg.json'' (timestamp sample_fs))"
    by (simp add: sample_fs_def)
  have p: "post_config ?cm (Some ?c) sample_fs =
      (fst (post_config ?cm (Some ?c) sample_fs), snd (post_config ?cm (Some ?c) sample_fs))"
    by simp
  show ?thesis
    using v d1 save_then_load_round_trip[OF nn v t d1 d2 p refl] by simp
qed

text \<open>
  C3. On a successful save over an existing configuration file, the backup step comes
  first and copies the prior content to \<open><file>.backup.<timestamp>\<close>; then the file is
  overwritten, and after the save the backup holds the prior content. No request removes
  a file: a \<open>POST /config\<close>, whatever its outcome, leaves every file in place and every
  file but the configuration and the backup of that moment as it was, and a
  \<open>GET /config\<close> changes nothing.
\<close>

theorem save_creates_backup:
  assumes "post_config (persistent path base) (Some config) w = (res, w1)"
    and "status res = 200"
    and "files w path = Some prior"
  shows "createBackup path w =
           (Inr (), w\<lparr>files := (files w)(backup_name path (timestamp w) \<mapsto> prior)\<rparr>)
         \<and> os_writeFile path (Json config)
             (w\<lparr>files := (files w)(backup_name path (timestamp w) \<mapsto> prior)\<rparr>) = (Inr (), w1)
         \<and> files w1 (backup_name path (timestamp w)) = Some prior
         \<and> files w1 path = Some (Json config)
         \<and> (\<forall>payload w' res' w1'.
               post_config (persistent path base) payload w' = (res', w1') \<longrightarrow>
               dom (files w') \<subseteq> dom (files w1') \<and>
               (\<forall>q. q \<noteq> path \<longrightarrow> q \<noteq> backup_name path (timestamp w') \<longrightarrow>
                    files w1' q = files w' q))
         \<and> (\<forall>w'. snd (get_config (persistent path base) w') = w')"
proof -
  have sv: "ConfigManager_saveConfig path config w = (Inr (), w1)"
    using assms(1,2) by (rule post_200_saved)
  have w1: "w1 = w\<lparr>files := (files w)(backup_name path (timestamp w) \<mapsto> prior,
                                       path \<mapsto> Json config)\<rparr>"
    using saveConfig_ok[OF sv] assms(3) by simp
  have bk: "createBackup path w =
           (Inr (), w\<lparr>files := (files w)(backup_name path (timestamp w) \<mapsto> prior)\<rparr>)"
    using sv assms(3)
    by (auto simp: ConfigManager_saveConfig_def createBackup_def os_writeFile_def
        split: if_splits prod.splits sum.splits)
  have wr: "os_writeFile path (Json config)
             (w\<lparr>files := (files w)(backup_name path (timestamp w) \<mapsto> prior)\<rparr>) = (Inr (), w1)"
    using sv bk by (simp add: ConfigManager_saveConfig_def)
  have f: "files w1 (backup_name path (timestamp w)) = Some prior \<and> files w1 path = Some (Json config)"
    by (simp add: w1 backup_name_neq)
  show ?thesis
    using bk wr f post_config_keeps_files get_config_keeps_files by blast
qed

theorem save_creates_backup_witness:
  "status (fst (post_config (persistent ''cfg.json'' (sample_cm ''cfg.json''))
       (Some (JObj [(''mcpServers'', JObj [(''fs'', JObj [(''command'', JString ''npx'')])])]))
       sample_fs)) = 200
   \<and> files sample_fs ''cfg.json'' = Some (Json (JObj [(''mcpServers'', JObj [])]))
   \<and> files (snd (post_config (persistent ''cfg.json'' (sample_cm ''cfg.json''))
       (Some (JObj [(''mcpServers'', JObj [(''fs'', JObj [(''command'', JString ''npx'')])])]))
       sample_fs)) ''cfg.json.backup.1700000000000''
     = Some (Json (JObj [(''mcpServers'', JObj [])]))"
proof -
  let ?c = "JObj [(''mcpServers'', JObj [(''fs'', JObj [(''command'', JString ''npx'')])])]"
  let ?cm = "persistent ''cfg.json'' (sample_cm ''cfg.json'')"
  have p: "post_config ?cm (Some ?c) sample_fs =
      (fst (post_config ?cm (Some ?c) sample_fs), snd (post_config ?cm (Some ?c) sample_fs))"
    by simp
  have ok: "status (fst (post_config ?cm (Some ?c) sample_fs)) = 200"
    by (simp add: post_config_def persistent_def sample_defs ConfigManager_saveConfig_def
        createBackup_def os_writeFile_def catch_500_def res_json_def)
  have f: "files sample_fs ''cfg.json'' = Some (Json (JObj [(''mcpServers'', JObj [])]))"
    by (simp add: sample_fs_def)
  have b: "backup_name ''cfg.json'' (timestamp sample_fs) = ''cfg.json.backup.1700000000000''"
    by (simp add: backup_name_def sample_fs_def)
  show ?thesis
    using ok f save_creates_backup[OF p ok f] by (simp add: b)
qed

text \<open>
  C4. A configuration file that is loaded, edited and saved through validation holds
  exactly the edited document afterwards: whatever the validator is, every field the edit
  left alone is as it was on disk, and with no edit the content is unchanged.
\<close>

theorem load_edit_save_keeps_unedited:
  assumes "files w path = Some (Json doc)"
    and "post_config (persistent path base) (Some (edit doc)) w = (res, w1)"
    and "status res = 200"
  shows "get_config (persistent path base) w = (\<lparr>status = 200, body = doc\<rparr>, w)
         \<and> files w1 path = Some (Json (edit doc))
         \<and> (\<forall>k. own_prop (edit doc) k = own_prop doc k \<longrightarrow> file_prop w1 path k = file_prop w path k)
         \<and> (edit doc = doc \<longrightarrow> files w1 path = files w path)"
proof -
  have sv: "ConfigManager_saveConfig path (edit doc) w = (Inr (), w1)"
    using assms(2,3) by (rule post_200_saved)
  have f1: "files w1 path = Some (Json (edit doc))"
    using saveConfig_ok[OF sv] assms(1) by simp
  have g: "get_config (persistent path base) w = (\<lparr>status = 200, body = doc\<rparr>, w)"
    using assms(1)
    by (simp add: get_config_def persistent_simps ConfigManager_loadConfig_def os_readFile_def
        catch_500_def res_json_def)
  show ?thesis
    using g f1 assms(1) by (simp add: file_prop_def)
qed

theorem load_edit_save_keeps_unedited_witness:
  "files sample_fs ''cfg.json'' = Some (Json (JObj [(''mcpServers'', JObj [])]))
   \<and> status (fst (post_config (persistent ''cfg.json'' (sample_cm ''cfg.json''))
       (Some ((\<lambda>d. JObj [(''mcpServers'', JObj []), (''theme'', JString ''dark'')])
          (JObj [(''mcpServers'', JObj [])])))
       sample_fs)) = 200
   \<and> file_prop (snd (post_config (persistent ''cfg.json'' (sample_cm ''cfg.json''))
       (Some ((\<lambda>d. JObj [(''mcpServers'', JObj []), (''theme'', JString ''dark'')])
          (JObj [(''mcpServers'', JObj [])])))
       sample_fs)) ''cfg.json'' ''mcpServers''
     = Some (JObj [])"
proof -
  let ?e = "\<lambda>d::json. JObj [(''mcpServers'', JObj []), (''theme'', JString ''dark'')]"
  let ?d = "JObj [(''mcpServers'', JObj [])]"
  let ?cm = "persistent ''cfg.json'' (sample_cm ''cfg.json'')"
  have f: "files sample_fs ''cfg.json'' = Some (Json ?d)"
    by (simp add: sample_fs_def)
  have p: "post_config ?cm (Some (?e ?d)) sample_fs =
      (fst (post_config ?cm (Some (?e ?d)) sample_fs), snd (post_config ?cm (Some (?e ?d)) sample_fs))"
    by simp
  have ok: "status (fst (post_config ?cm (Some (?e ?d)) sample_fs)) = 200"
    by (simp add: post_config_def persistent_def sample_defs ConfigManager_saveConfig_def
        createBackup_def os_writeFile_def catch_500_def res_json_def)
  have u: "own_prop (?e ?d) ''mcpServers'' = own_prop ?d ''mcpServers''"
    by (simp add: own_prop_def)
  have o: "file_prop sample_fs ''cfg.json'' ''mcpServers'' = Some (JObj [])"
    by (simp add: file_prop_def sample_fs_def own_prop_def)
  from load_edit_save_keeps_unedited[of sample_fs "''cfg.json''" ?d "sample_cm ''cfg.json''" ?e, OF f p ok]
  have "file_prop (snd (post_config ?cm (Some (?e ?d)) sample_fs)) ''cfg.json'' ''mcpServers''
      = file_prop sample_fs ''cfg.json'' ''mcpServers''"
    using u by blast
  then show ?thesis using f ok o by simp
qed


section \<open>The ConfigManager instance across requests\<close>

text \<open>
  C5, as the module has it. One ConfigManager is constructed, when the module is loaded,
  and none while requests are served, however many there are; every request is served
  by that instance, and starts from the instance fields and the world that the requests
  before it left.
\<close>

theorem one_instance_for_all_requests:
  "length (instances (snd (run cls reqs srv))) = Suc (length (instances srv))
   \<and> run cls (reqs1 @ reqs2) srv =
       (case run cls reqs1 srv of
          (rs1, srv1) \<Rightarrow>
            (case serve cls (length (instances srv)) reqs2 srv1 of
               (rs2, srv2) \<Rightarrow> (rs1 @ rs2, srv2)))"
  using serve_length[of cls "length (instances srv)" reqs
      "srv\<lparr>instances := instances srv @ [constructor cls]\<rparr>"]
  by (simp add: run_def load_module_def new_ConfigManager_def serve_append)

theorem one_instance_for_all_requests_witness:
  "length (instances (snd (run counting
      [\<lparr>req_verb = GET, req_path = ''/config'', req_body = None\<rparr>,
       \<lparr>req_verb = POST, req_path = ''/config'', req_body = Some (JObj [])\<rparr>,
       \<lparr>req_verb = GET, req_path = ''/config/full'', req_body = None\<rparr>]
      \<lparr>instances = [], world = ()\<rparr>))) = 1"
  using one_instance_for_all_requests[of counting
      "[\<lparr>req_verb = GET, req_path = ''/config'', req_body = None\<rparr>,
       \<lparr>req_verb = POST, req_path = ''/config'', req_body = Some (JObj [])\<rparr>,
       \<lparr>req_verb = GET, req_path = ''/config/full'', req_body = None\<rparr>]"
      "\<lparr>instances = [], world = ()\<rparr>"]
  by simp

text \<open>
  C5, as stated, fails: two requests are served by the one instance constructed at load,
  not by one instance each, and with a class that keeps a field the second of two equal
  requests is answered from what the first left in it.
\<close>

theorem per_request_instance_counterexample:
  "run counting
     [\<lparr>req_verb = GET, req_path = ''/config'', req_body = None\<rparr>,
      \<lparr>req_verb = GET, req_path = ''/config'', req_body = None\<rparr>]
     \<lparr>instances = [], world = ()\<rparr>
   = ([Some \<lparr>status = 200, body = JNum 0\<rparr>, Some \<lparr>status = 200, body = JNum 1\<rparr>],
      \<lparr>instances = [2], world = ()\<rparr>)"
  by (simp add: run_def load_module_def new_ConfigManager_def handle_def route_simps
      get_config_def instance_at_def on_instance_def counting_def catch_500_def res_json_def)


section \<open>Failures of the ConfigManager\<close>

text \<open>
  C6. On each of the five routes, when an operation of the ConfigManager throws while the
  request is served, the answer has status 500 and a body with \<open>success: false\<close> and a
  message that is the route's text followed by the message of the error thrown.
\<close>

theorem cm_throw_gives_500:
  assumes "cm_throws cm req s = Some e"
  shows "map_option fst (handle cm req s) =
           Some \<lparr>status = 500,
                 body = JObj [(''success'', JBool False),
                              (''message'',
                               JString (catch_text (req_verb req) (req_path req) @ message e))]\<rparr>"
  using assms
  unfolding cm_throws_def handle_def catch_text_def
  by (auto simp: route_simps get_config_def get_config_full_def get_config_info_def
        get_config_path_def post_config_Some catch_500_def res_status_json_def
      split: if_splits prod.splits sum.splits option.splits)

theorem cm_throw_gives_500_witness:
  "cm_throws (sample_cm ''cfg.json'') \<lparr>req_verb = GET, req_path = ''/config'', req_body = None\<rparr> empty_fs
     = Some (Error ''ENOENT: no such file or directory, open cfg.json'')
   \<and> map_option fst (handle (sample_cm ''cfg.json'')
        \<lparr>req_verb = GET, req_path = ''/config'', req_body = None\<rparr> empty_fs)
     = Some \<lparr>status = 500,
             body = JObj [(''success'', JBool False),
                          (''message'', JString
                             ''Failed to load config: ENOENT: no such file or directory, open cfg.json'')]\<rparr>"
proof -
  have h: "cm_throws (sample_cm ''cfg.json'')
      \<lparr>req_verb = GET, req_path = ''/config'', req_body = None\<rparr> empty_fs
     = Some (Error ''ENOENT: no such file or directory, open cfg.json'')"
    by (simp add: cm_throws_def sample_cm_def ConfigManager_loadConfig_def os_readFile_def
        empty_fs_def)
  show ?thesis
    using h cm_throw_gives_500[OF h] by (simp add: catch_text_def)
qed


section \<open>The routes\<close>





section \<open>What is validated and what is saved\<close>

text \<open>
  C8. Only the \<open>mcpServers\<close> property of the body goes to the validator. When it passes,
  \<open>saveConfig\<close> is invoked once, with the entire body, and the state it leaves is the
  state after the request; the answer is 200 when it returns and 500 when it throws.
\<close>

theorem post_config_valid_saves_body:
  assumes "config \<noteq> JNull"
    and "validateConfig cm \<lparr>mcpServers = own_prop config ''mcpServers''\<rparr> = Inr vr"
    and "valid vr"
  shows "post_config (traced cm) (Some config) (calls, s) =
           (case saveConfig cm config s of
              (Inl e, s1) \<Rightarrow>
                (\<lparr>status = 500,
                  body = JObj [(''success'', JBool False),
                               (''message'', JString (''Failed to save config: '' @ message e))]\<rparr>,
                 (calls @ [Call_saveConfig config], s1))
            | (Inr _, s1) \<Rightarrow>
                (\<lparr>status = 200,
                  body = JObj [(''success'', JBool True),
                               (''message'', JString ''Configuration saved successfully'')]\<rparr>,
                 (calls @ [Call_saveConfig config], s1)))"
  using assms
  by (simp add: post_config_Some traced_simps catch_500_def res_status_json_def res_json_def
      split: prod.splits sum.splits)

theorem post_config_valid_saves_body_witness:
  "validateConfig (sample_cm ''cfg.json'')
      \<lparr>mcpServers = own_prop (JObj [(''mcpServers'', JObj []), (''theme'', JString ''dark'')])
         ''mcpServers''\<rparr>
     = Inr \<lparr>valid = True, errors = []\<rparr>
   \<and> fst (snd (post_config (traced (sample_cm ''cfg.json''))
        (Some (JObj [(''mcpServers'', JObj []), (''theme'', JString ''dark'')])) ([], sample_fs)))
     = [Call_saveConfig (JObj [(''mcpServers'', JObj []), (''theme'', JString ''dark'')])]"
proof -
  have nn: "JObj [(''mcpServers'', JObj []), (''theme'', JString ''dark'')] \<noteq> JNull" by simp
  have v: "validateConfig (sample_cm ''cfg.json'')
      \<lparr>mcpServers = own_prop (JObj [(''mcpServers'', JObj []), (''theme'', JString ''dark'')])
         ''mcpServers''\<rparr>
     = Inr \<lparr>valid = True, errors = []\<rparr>"
    by (simp add: sample_cm_def sample_validateConfig_def own_prop_def)
  have t: "valid \<lparr>valid = True, errors = []\<rparr>" by simp
  show ?thesis
    using v post_config_valid_saves_body[OF nn v t, of "[]" sample_fs]
    by (simp split: prod.splits sum.splits)
qed

text \<open>
  C9. A \<open>POST /config\<close> whose body is \<open>null\<close> is answered with status 500 by the
  \<open>catch\<close> branch, with the message of the TypeError that reading \<open>mcpServers\<close> threw; it
  is not a 400 validation failure, and the state is as it was.
\<close>

theorem post_config_null_body_500:
  "post_config cm (Some JNull) s =
     (\<lparr>status = 500,
       body = JObj [(''success'', JBool False),
                    (''message'', JString (''Failed to save config: '' @
                       cannot_read ''null'' ''mcpServers''))]\<rparr>, s)"
  by (simp add: post_config_def catch_500_def res_status_json_def)


section \<open>The client's handling of responses\<close>

text \<open>
  C10, as the client has it. Whatever the method of \<open>api\<close>: for a 2xx response the result
  is what parsing the body gives, the parsed JSON or the parse error. For any other
  response an Error with the message \<open>Request failed\<close> is thrown when the body is not JSON,
  or is a JSON value other than \<open>null\<close> whose \<open>message\<close> is absent or falsy; and when
  \<open>message\<close> is truthy, an Error whose message is that string, or the string it converts
  to where the conversion does not throw.
\<close>

theorem api_method_outcome:
  assumes "fetch (api_request enc m) = Inr response"
  shows "(ok response \<longrightarrow> api fetch enc Number_toString m = res_parsed response)
   \<and> (\<not> ok response \<longrightarrow> res_parsed response = Inl e \<longrightarrow>
        api fetch enc Number_toString m = Inl (Error ''Request failed''))
   \<and> (\<not> ok response \<longrightarrow> res_parsed response = Inr v \<longrightarrow> v \<noteq> JNull \<longrightarrow>
        \<not> truthy (own_prop v ''message'') \<longrightarrow>
        api fetch enc Number_toString m = Inl (Error ''Request failed''))
   \<and> (\<not> ok response \<longrightarrow> res_parsed response = Inr v \<longrightarrow> v \<noteq> JNull \<longrightarrow>
        own_prop v ''message'' = Some (JString t) \<longrightarrow> t \<noteq> [] \<longrightarrow>
        api fetch enc Number_toString m = Inl (Error t))
   \<and> (\<not> ok response \<longrightarrow> res_parsed response = Inr v \<longrightarrow> v \<noteq> JNull \<longrightarrow>
        own_prop v ''message'' = Some msg \<longrightarrow> truthy (Some msg) \<longrightarrow>
        ToString Number_toString msg = Inr t' \<longrightarrow>
        api fetch enc Number_toString m = Inl (Error t'))"
proof -
  have rp: "v \<noteq> JNull \<Longrightarrow> read_prop (Some v) ''message'' = Inr (own_prop v ''message'')"
    by (cases v) (simp_all add: read_prop_def)
  have 1: "ok response \<longrightarrow> api fetch enc Number_toString m = res_parsed response"
    using assms by (simp add: api_def handleResponse_def)
  have 2: "\<not> ok response \<longrightarrow> res_parsed response = Inl e \<longrightarrow>
        api fetch enc Number_toString m = Inl (Error ''Request failed'')"
    using assms
    by (simp add: api_def handleResponse_def read_prop_def own_prop_def js_or_def truthy_def
        new_Error_def)
  have 3: "\<not> ok response \<longrightarrow> res_parsed response = Inr v \<longrightarrow> v \<noteq> JNull \<longrightarrow>
        \<not> truthy (own_prop v ''message'') \<longrightarrow>
        api fetch enc Number_toString m = Inl (Error ''Request failed'')"
    using assms by (simp add: api_def handleResponse_def rp js_or_def new_Error_def)
  have 5: "\<not> ok response \<longrightarrow> res_parsed response = Inr v \<longrightarrow> v \<noteq> JNull \<longrightarrow>
        own_prop v ''message'' = Some msg \<longrightarrow> truthy (Some msg) \<longrightarrow>
        ToString Number_toString msg = Inr t' \<longrightarrow>
        api fetch enc Number_toString m = Inl (Error t')" for msg t'
    using assms by (simp add: api_def handleResponse_def rp js_or_def new_Error_def)
  have 4: "\<not> ok response \<longrightarrow> res_parsed response = Inr v \<longrightarrow> v \<noteq> JNull \<longrightarrow>
        own_prop v ''message'' = Some (JString t) \<longrightarrow> t \<noteq> [] \<longrightarrow>
        api fetch enc Number_toString m = Inl (Error t)"
    using 5[of "JString t" t] by (simp add: truthy_def)
  show ?thesis
    using 1 2 3 4 5 by blast
qed

theorem api_method_outcome_witness:
  "api (\<lambda>_. Inr \<lparr>res_status = 400,
                  res_parsed = Inr (JObj [(''success'', JBool False),
                                          (''message'', JString ''Invalid configuration'')])\<rparr>)
       (\<lambda>q. q) (\<lambda>_. []) (Api_saveConfig (JObj []))
     = Inl (Error ''Invalid configuration'')
   \<and> api (\<lambda>_. Inr \<lparr>res_status = 404, res_parsed = Inl (SyntaxError ''Unexpected token <'')\<rparr>)
       (\<lambda>q. q) (\<lambda>_. []) Api_getPresets
     = Inl (Error ''Request failed'')
   \<and> api (\<lambda>_. Inr \<lparr>res_status = 500, res_parsed = Inr (JObj [(''message'', JArray [JBool True, JNull, JString ''x''])])\<rparr>)
       (\<lambda>q. q) (\<lambda>_. []) Api_getConfig
     = Inl (Error ''true,,x'')
   \<and> api (\<lambda>_. Inr \<lparr>res_status = 200, res_parsed = Inr (JObj [(''mcpServers'', JObj [])])\<rparr>)
       (\<lambda>q. q) (\<lambda>_. []) Api_getConfig
     = Inr (JObj [(''mcpServers'', JObj [])])"
proof -
  let ?r1 = "\<lparr>res_status = 400,
                  res_parsed = Inr (JObj [(''success'', JBool False),
                                          (''message'', JString ''Invalid configuration'')])\<rparr>"
  let ?r2 = "\<lparr>res_status = 404, res_parsed = Inl (SyntaxError ''Unexpected token <'')\<rparr>"
  let ?r3 = "\<lparr>res_status = 500, res_parsed = Inr (JObj [(''message'', JArray [JBool True, JNull, JString ''x''])])\<rparr>"
  let ?r4 = "\<lparr>res_status = 200, res_parsed = Inr (JObj [(''mcpServers'', JObj [])])\<rparr>"
  have a: "api (\<lambda>_. Inr ?r1) (\<lambda>q. q) (\<lambda>_. []) (Api_saveConfig (JObj []))
      = Inl (Error ''Invalid configuration'')"
    using api_method_outcome[of "\<lambda>_. Inr ?r1" "\<lambda>q. q" "Api_saveConfig (JObj [])" ?r1
        "\<lambda>_. []" "Error []" "JObj [(''success'', JBool False),
                                          (''message'', JString ''Invalid configuration'')]"
        "''Invalid configuration''" JNull "[]"]
    by (simp add: ok_def own_prop_def)
  have b: "api (\<lambda>_. Inr ?r2) (\<lambda>q. q) (\<lambda>_. []) Api_getPresets = Inl (Error ''Request failed'')"
    using api_method_outcome[of "\<lambda>_. Inr ?r2" "\<lambda>q. q" Api_getPresets ?r2
        "\<lambda>_. []" "SyntaxError ''Unexpected token <''" JNull "[]" JNull "[]"]
    by (simp add: ok_def)
  have c: "api (\<lambda>_. Inr ?r3) (\<lambda>q. q) (\<lambda>_. []) Api_getConfig = Inl (Error ''true,,x'')"
    using api_method_outcome[of "\<lambda>_. Inr ?r3" "\<lambda>q. q" Api_getConfig ?r3
        "\<lambda>_. []" "Error []" "JObj [(''message'', JArray [JBool True, JNull, JString ''x''])]"
        "[]" "JArray [JBool True, JNull, JString ''x'']" "''true,,x''"]
    by (simp add: ok_def own_prop_def truthy_def)
  have d: "api (\<lambda>_. Inr ?r4) (\<lambda>q. q) (\<lambda>_. []) Api_getConfig = Inr (JObj [(''mcpServers'', JObj [])])"
    using api_method_outcome[of "\<lambda>_. Inr ?r4" "\<lambda>q. q" Api_getConfig ?r4 "\<lambda>_. []"
        "Error []" JNull "[]" JNull "[]"]
    by (simp add: ok_def)
  show ?thesis using a b c d by simp
qed

text \<open>
  C10, as stated, fails: a 500 response whose body is the JSON value \<open>null\<close> makes the
  method throw a TypeError, not an Error with the message \<open>Request failed\<close>; a 2xx
  response whose body is not JSON makes it throw the parse error instead of returning;
  and a 500 response whose \<open>message\<close> is an object with a property \<open>toString\<close> makes
  \<open>new Error\<close> throw a TypeError.
\<close>

theorem api_null_body_counterexample:
  "api (\<lambda>_. Inr \<lparr>res_status = 500, res_parsed = Inr JNull\<rparr>) (\<lambda>q. q) (\<lambda>_. []) Api_getConfig
     = Inl (TypeError (cannot_read ''null'' ''message''))
   \<and> TypeError (cannot_read ''null'' ''message'') \<noteq> Error ''Request failed''
   \<and> api (\<lambda>_. Inr \<lparr>res_status = 200,
                     res_parsed = Inl (SyntaxError ''Unexpected end of JSON input'')\<rparr>)
       (\<lambda>q. q) (\<lambda>_. []) Api_getConfig
     = Inl (SyntaxError ''Unexpected end of JSON input'')
   \<and> api (\<lambda>_. Inr \<lparr>res_status = 500,
                     res_parsed = Inr (JObj [(''message'', JObj [(''toString'', JNum 1)])])\<rparr>)
       (\<lambda>q. q) (\<lambda>_. []) Api_getConfig
     = Inl (TypeError ''Cannot convert object to primitive value'')"
  by (simp add: api_def handleResponse_def ok_def read_prop_def own_prop_def js_or_def
      truthy_def new_Error_def)

end
